theory Spec2Isabelle
  imports Complex_Main
begin

section \<open>Python values and operators\<close>

text \<open>
  The program computes on pandas cells and Python scalars.  A cell is a finite float,
  the float NaN, Python's \<open>None\<close>, or a string.  Finite floats are modelled as reals:
  rounding and the infinities are outside this development.  Strings are byte lists;
  the labels of the program that contain an en dash carry its UTF-8 encoding.
\<close>

datatype pyval = Float real | NaN | PyNone | Str string

datatype error =
    TypeError
  | ZeroDivisionError
  | MissingRequiredColumns "string list"
  | NoDegradantColumns

text \<open>\<open>pd.isna\<close>: NaN and \<open>None\<close> are the missing values.\<close>

fun isna :: "pyval \<Rightarrow> bool" where
  "isna NaN = True"
| "isna PyNone = True"
| "isna _ = False"

text \<open>
  Comparison of a value with a numeric literal, as in \<open>amb < 98\<close>: a float compares,
  NaN makes every comparison false, \<open>None\<close> and strings raise \<open>TypeError\<close>.
\<close>

fun py_cmp :: "(real \<Rightarrow> real \<Rightarrow> bool) \<Rightarrow> pyval \<Rightarrow> real \<Rightarrow> error + bool" where
  "py_cmp rel (Float a) c = Inr (rel a c)"
| "py_cmp rel NaN c = Inr False"
| "py_cmp rel PyNone c = Inl TypeError"
| "py_cmp rel (Str s) c = Inl TypeError"

definition py_lt :: "pyval \<Rightarrow> real \<Rightarrow> error + bool" where
  "py_lt = py_cmp (\<lambda>a c. a < c)"

definition py_le :: "pyval \<Rightarrow> real \<Rightarrow> error + bool" where
  "py_le = py_cmp (\<lambda>a c. a \<le> c)"

definition py_gt :: "pyval \<Rightarrow> real \<Rightarrow> error + bool" where
  "py_gt = py_cmp (\<lambda>a c. a > c)"

definition py_ge :: "pyval \<Rightarrow> real \<Rightarrow> error + bool" where
  "py_ge = py_cmp (\<lambda>a c. a \<ge> c)"

fun py_abs :: "pyval \<Rightarrow> error + pyval" where
  "py_abs (Float a) = Inr (Float \<bar>a\<bar>)"
| "py_abs NaN = Inr NaN"
| "py_abs PyNone = Inl TypeError"
| "py_abs (Str s) = Inl TypeError"

text \<open>Binary arithmetic of Python floats; \<open>+\<close> also concatenates two strings.\<close>

fun py_arith :: "(real \<Rightarrow> real \<Rightarrow> real) \<Rightarrow> pyval \<Rightarrow> pyval \<Rightarrow> error + pyval" where
  "py_arith f (Float a) (Float b) = Inr (Float (f a b))"
| "py_arith f (Float a) NaN = Inr NaN"
| "py_arith f NaN (Float b) = Inr NaN"
| "py_arith f NaN NaN = Inr NaN"
| "py_arith f _ _ = Inl TypeError"

definition py_sub :: "pyval \<Rightarrow> pyval \<Rightarrow> error + pyval" where
  "py_sub = py_arith (\<lambda>a b. a - b)"

fun py_add :: "pyval \<Rightarrow> pyval \<Rightarrow> error + pyval" where
  "py_add (Str s) (Str t) = Inr (Str (s @ t))"
| "py_add a b = py_arith (\<lambda>x y. x + y) a b"

fun py_div :: "pyval \<Rightarrow> pyval \<Rightarrow> error + pyval" where
  "py_div (Float a) (Float b) = (if b = 0 then Inl ZeroDivisionError else Inr (Float (a / b)))"
| "py_div a b = py_arith (\<lambda>x y. x / y) a b"

text \<open>Sequencing of computations that may raise, and Python's control operators.\<close>

definition bind_err :: "error + 'a \<Rightarrow> ('a \<Rightarrow> error + 'b) \<Rightarrow> error + 'b" where
  "bind_err m f = (case m of Inl e \<Rightarrow> Inl e | Inr x \<Rightarrow> f x)"

text \<open>\<open>a and b\<close>: \<open>b\<close> is evaluated only when \<open>a\<close> is true.\<close>

definition py_and :: "error + bool \<Rightarrow> error + bool \<Rightarrow> error + bool" where
  "py_and a b = bind_err a (\<lambda>x. if x then b else Inr False)"

definition py_not :: "error + bool \<Rightarrow> error + bool" where
  "py_not a = bind_err a (\<lambda>x. Inr (\<not> x))"

text \<open>\<open>if c: return t\<close> followed by the rest \<open>e\<close> of the function body.\<close>

definition py_if :: "error + bool \<Rightarrow> error + 'a \<Rightarrow> error + 'a \<Rightarrow> error + 'a" where
  "py_if c t e = bind_err c (\<lambda>x. if x then t else e)"

section \<open>Python string operations\<close>

fun startswith :: "string \<Rightarrow> string \<Rightarrow> bool" where
  "startswith s [] = True"
| "startswith [] (p # ps) = False"
| "startswith (c # cs) (p # ps) = (c = p \<and> startswith cs ps)"

text \<open>\<open>sub in s\<close> for strings.\<close>

fun str_contains :: "string \<Rightarrow> string \<Rightarrow> bool" where
  "str_contains sub [] = (sub = [])"
| "str_contains sub (c # cs) = (startswith (c # cs) sub \<or> str_contains sub cs)"

section \<open>recommendation_logic.py\<close>

definition en_dash :: string where
  "en_dash = [CHR 0xE2, CHR 0x80, CHR 0x93]"

definition zone1_label :: string where
  "zone1_label = ''Zone 1 '' @ en_dash @ '' Analytical variability''"

definition zone2_label :: string where
  "zone2_label = ''Zone 2 '' @ en_dash @ '' Missing or undetected degradants''"

definition zone3_physical_label :: string where
  "zone3_physical_label = ''Zone 3 '' @ en_dash @ '' Physical loss mechanisms''"

definition zone4_label :: string where
  "zone4_label = ''Zone 4 '' @ en_dash @ '' Overestimation / RF mismatch''"

definition zone3_default_label :: string where
  "zone3_default_label = ''Zone 3 '' @ en_dash @ '' Method or degradation pathway issue''"

definition interpret_z_mb :: "pyval \<Rightarrow> error + (string \<times> string)" where
  "interpret_z_mb z_mb =
     (if z_mb = PyNone then Inr (''Invalid Z_MB'', ''Check uncertainty inputs'')
      else
        py_if (bind_err (py_abs z_mb) (\<lambda>a. py_le a 2))
          (Inr (''Within analytical variability'', ''Acceptable''))
       (py_if (py_lt z_mb (- 2))
          (Inr (''Statistically significant mass loss'', ''Investigate imbalance''))
          (Inr (''Statistically significant over-recovery'', ''Check response factors''))))"

definition diagnostic_zone :: "pyval \<Rightarrow> pyval \<Rightarrow> pyval \<Rightarrow> error + string" where
  "diagnostic_zone amb rmb z_mb =
     py_if (bind_err (py_abs z_mb) (\<lambda>a. py_le a 2))
       (Inr zone1_label)
    (py_if (py_and (py_lt amb 98) (py_lt rmb 0.8))
       (Inr zone2_label)
    (py_if (py_and (py_lt amb 98) (py_and (py_ge rmb 0.8) (py_le rmb 1.2)))
       (Inr zone3_physical_label)
    (py_if (py_and (py_gt amb 102) (py_gt rmb 1.2))
       (Inr zone4_label)
       (Inr zone3_default_label))))"

definition recommended_action :: "string \<Rightarrow> string" where
  "recommended_action zone =
     (if str_contains ''Zone 1'' zone then ''No investigation required''
      else if str_contains ''Zone 2'' zone then
        ''Search for additional degradants / volatility studies''
      else if str_contains ''Zone 3'' zone then
        ''Investigate physical loss or degradation pathways''
      else if str_contains ''Zone 4'' zone then
        ''Review response factors and integration parameters''
      else ''Expert review required'')"

text \<open>app.py shows the first component of \<open>interpret_z_mb\<close> in each row.\<close>

definition z_mb_interpretation :: "pyval \<Rightarrow> error + string" where
  "z_mb_interpretation z = bind_err (interpret_z_mb z) (\<lambda>p. Inr (fst p))"

text \<open>
  The specification's reading of the action lookup: the zone number is parsed from the
  leading \<open>Zone N\<close> of a label, and each number has one fixed action.
\<close>

definition spec_zone_number :: "string \<Rightarrow> nat option" where
  "spec_zone_number lbl =
     (if startswith lbl ''Zone 1'' then Some 1
      else if startswith lbl ''Zone 2'' then Some 2
      else if startswith lbl ''Zone 3'' then Some 3
      else if startswith lbl ''Zone 4'' then Some 4
      else None)"

definition spec_zone_action :: "nat \<Rightarrow> string" where
  "spec_zone_action n =
     (if n = 1 then ''No investigation required''
      else if n = 2 then ''Search for additional degradants / volatility studies''
      else if n = 3 then ''Investigate physical loss or degradation pathways''
      else ''Review response factors and integration parameters'')"

section \<open>calculation_functions.py\<close>




section \<open>preprocessing.py: column names\<close>

text \<open>
  \<open>str.strip\<close> and \<open>str.lower\<close> on ASCII text: the whitespace characters are the ASCII
  ones Python strips, and only the letters A to Z change under \<open>lower\<close>.
\<close>

definition is_py_space :: "char \<Rightarrow> bool" where
  "is_py_space c \<longleftrightarrow>
     c \<in> set [CHR 0x09, CHR 0x0A, CHR 0x0B, CHR 0x0C, CHR 0x0D,
              CHR 0x1C, CHR 0x1D, CHR 0x1E, CHR 0x1F, CHR '' '']"

definition strip :: "string \<Rightarrow> string" where
  "strip s = rev (dropWhile is_py_space (rev (dropWhile is_py_space s)))"

definition lower_char :: "char \<Rightarrow> char" where
  "lower_char c =
     (case map_of (zip ''ABCDEFGHIJKLMNOPQRSTUVWXYZ'' ''abcdefghijklmnopqrstuvwxyz'') c of
        Some d \<Rightarrow> d
      | None \<Rightarrow> c)"

definition lower :: "string \<Rightarrow> string" where
  "lower s = map lower_char s"

text \<open>\<open>s.replace(" ", "_")\<close>.\<close>

definition replace_spaces :: "string \<Rightarrow> string" where
  "replace_spaces s = map (\<lambda>c. if c = CHR '' '' then CHR ''_'' else c) s"

definition COLUMN_ALIASES :: "(string \<times> string list) list" where
  "COLUMN_ALIASES =
     [(''api_name'', [''api name'', ''api_name'', ''api'']),
      (''api_code'', [''api code'', ''api_code'']),
      (''stress_type'', [''stress type'', ''stress_typ'', ''stress_type'', ''stress'']),
      (''time_months'', [''time'', ''time_mon'', ''time_months'', ''months'', ''time_month'']),
      (''api_assay'', [''api assay'', ''api_assay'', ''api_assay_percent'',
                       ''api assay percent'', ''assay'', ''assay_percent''])]"

text \<open>
  The entry that the loop of \<open>normalize_columns\<close> leaves in \<open>col_map\<close> for a column:
  the first alias group that lists the cleaned name, overwritten by the degradant rule.
\<close>

definition col_map_entry :: "string \<Rightarrow> string option" where
  "col_map_entry col =
     (let clean = lower (strip col);
          by_alias = map_option fst (find (\<lambda>(std, aliases). clean \<in> set aliases) COLUMN_ALIASES)
      in if str_contains ''degradant'' clean then Some (replace_spaces clean) else by_alias)"

definition rename_label :: "string \<Rightarrow> string" where
  "rename_label col = (case col_map_entry col of Some new \<Rightarrow> new | None \<Rightarrow> col)"

section \<open>Data frames\<close>

text \<open>
  A frame has a list of column labels and a list of rows; a row gives the cell under
  each label and is read at the labels of its frame only.  Rows are indexed by
  position, as after \<open>reset_index(drop=True)\<close>.  Where renaming gives two columns the
  same label, a row keeps the cell of the first of them.
\<close>

record frame =
  columns :: "string list"
  rows :: "(string \<Rightarrow> pyval) list"

definition rename_row :: "string list \<Rightarrow> (string \<Rightarrow> pyval) \<Rightarrow> string \<Rightarrow> pyval" where
  "rename_row cols r new =
     (case find (\<lambda>c. rename_label c = new) cols of Some c \<Rightarrow> r c | None \<Rightarrow> NaN)"

definition normalize_columns :: "frame \<Rightarrow> frame" where
  "normalize_columns df =
     \<lparr>columns = map rename_label (columns df),
      rows = map (rename_row (columns df)) (rows df)\<rparr>"

definition detect_degradant_columns :: "frame \<Rightarrow> string list" where
  "detect_degradant_columns df = filter (\<lambda>c. startswith c ''degradant_'') (columns df)"

text \<open>\<open>df[c]\<close> and \<open>df[c] = values\<close>, where \<open>values\<close> has one entry for each row.\<close>

definition column :: "string \<Rightarrow> frame \<Rightarrow> pyval list" where
  "column c df = map (\<lambda>r. r c) (rows df)"

definition set_column :: "string \<Rightarrow> pyval list \<Rightarrow> frame \<Rightarrow> frame" where
  "set_column c vs df =
     \<lparr>columns = (if c \<in> set (columns df) then columns df else columns df @ [c]),
      rows = map2 (\<lambda>r v. r(c := v)) (rows df) vs\<rparr>"

text \<open>
  \<open>pd.to_numeric(..., errors="coerce")\<close> on one cell.  The parser of numeric text is
  pandas' own and is a parameter here: \<open>parse s\<close> is the number that the text \<open>s\<close>
  denotes, if any.
\<close>

fun to_numeric :: "(string \<Rightarrow> real option) \<Rightarrow> pyval \<Rightarrow> pyval" where
  "to_numeric parse (Float x) = Float x"
| "to_numeric parse NaN = NaN"
| "to_numeric parse PyNone = NaN"
| "to_numeric parse (Str s) = (case parse s of Some x \<Rightarrow> Float x | None \<Rightarrow> NaN)"

definition coerce_columns :: "(string \<Rightarrow> real option) \<Rightarrow> string list \<Rightarrow> frame \<Rightarrow> frame" where
  "coerce_columns parse cs df =
     df\<lparr>rows := map (\<lambda>r c. if c \<in> set cs then to_numeric parse (r c) else r c) (rows df)\<rparr>"

text \<open>\<open>df.dropna(how="all").reset_index(drop=True)\<close>.\<close>

definition dropna_all :: "frame \<Rightarrow> frame" where
  "dropna_all df = df\<lparr>rows := filter (\<lambda>r. \<not> (\<forall>c \<in> set (columns df). isna (r c))) (rows df)\<rparr>"

text \<open>
  Arithmetic on the cells of numeric columns: a missing operand gives NaN.  The columns
  it is used on hold floats, NaN or \<open>None\<close>, never text.
\<close>

fun np_arith :: "(real \<Rightarrow> real \<Rightarrow> real) \<Rightarrow> pyval \<Rightarrow> pyval \<Rightarrow> pyval" where
  "np_arith f (Float a) (Float b) = Float (f a b)"
| "np_arith f _ _ = NaN"

text \<open>\<open>df[cs].sum(axis=1)\<close>: the sum of a row over the columns \<open>cs\<close>, missing cells skipped.\<close>

fun nansum_term :: "pyval \<Rightarrow> real" where
  "nansum_term (Float x) = x"
| "nansum_term _ = 0"

definition sum_axis1 :: "string list \<Rightarrow> frame \<Rightarrow> pyval list" where
  "sum_axis1 cs df = map (\<lambda>r. Float (sum_list (map (\<lambda>c. nansum_term (r c)) cs))) (rows df)"

text \<open>
  \<open>df.apply(f, axis=1)\<close> with a scalar result per row: the first exception stops the
  loop; the results form a Series, which is a float column with NaN for \<open>None\<close> as soon
  as one result is a float, and an object column holding \<open>None\<close> when every result is
  \<open>None\<close>.
\<close>

fun sequence_err :: "(error + 'a) list \<Rightarrow> error + 'a list" where
  "sequence_err [] = Inr []"
| "sequence_err (m # ms) =
     bind_err m (\<lambda>x. bind_err (sequence_err ms) (\<lambda>xs. Inr (x # xs)))"

definition series_of_results :: "pyval list \<Rightarrow> pyval list" where
  "series_of_results vs =
     (if \<forall>v \<in> set vs. v = PyNone then vs
      else map (\<lambda>v. if v = PyNone then NaN else v) vs)"

definition apply_axis1 :: "((string \<Rightarrow> pyval) \<Rightarrow> error + pyval) \<Rightarrow> frame \<Rightarrow> error + pyval list" where
  "apply_axis1 f df = bind_err (sequence_err (map f (rows df))) (\<lambda>vs. Inr (series_of_results vs))"

section \<open>preprocessing.py: validation and the pipeline\<close>

text \<open>\<open>sep.join(xs)\<close>.\<close>

fun join :: "string \<Rightarrow> string list \<Rightarrow> string" where
  "join sep [] = []"
| "join sep [x] = x"
| "join sep (x # y # ys) = x @ sep @ join sep (y # ys)"

definition row_issues :: "(string \<Rightarrow> pyval) \<Rightarrow> error + string list" where
  "row_issues row =
     bind_err (py_not (py_and (py_ge (row ''api_assay'') 0) (py_le (row ''api_assay'') 100)))
       (\<lambda>out_of_range.
     bind_err (py_lt (row ''total_degradants'') 0)
       (\<lambda>negative.
     bind_err (bind_err (py_add (row ''api_assay'') (row ''total_degradants''))
                 (\<lambda>s. py_lt s 90))
       (\<lambda>suspicious.
     Inr ((if out_of_range then [''API assay out of range''] else []) @
          (if negative then [''Negative degradants''] else []) @
          (if suspicious then [''Suspicious mass loss''] else [])))))"

text \<open>The loop over \<open>df.iterrows()\<close>, with the list \<open>issues\<close> it appends to.\<close>

fun validate_loop ::
  "nat \<Rightarrow> (string \<Rightarrow> pyval) list \<Rightarrow> (nat \<times> string) list \<Rightarrow> error + (nat \<times> string) list" where
  "validate_loop idx [] issues = Inr issues"
| "validate_loop idx (row # rest) issues =
     bind_err (row_issues row) (\<lambda>ri.
       validate_loop (Suc idx) rest
         (if ri \<noteq> [] then issues @ [(idx, join '', '' ri)] else issues))"

definition validate_and_clean :: "frame \<Rightarrow> error + (frame \<times> (nat \<times> string) list)" where
  "validate_and_clean df = bind_err (validate_loop 0 (rows df) []) (\<lambda>issues. Inr (df, issues))"

definition required_columns :: "string list" where
  "required_columns = [''api_assay'', ''stress_type'', ''time_months'']"

definition rmb_lambda :: "(string \<Rightarrow> pyval) \<Rightarrow> error + pyval" where
  "rmb_lambda r =
     bind_err (py_sub (Float 100) (r ''api_assay'')) (\<lambda>api_loss.
       py_if (py_gt api_loss 0) (py_div (r ''total_degradants'') api_loss) (Inr PyNone))"

definition COMBINED_UNCERTAINTY :: real where
  "COMBINED_UNCERTAINTY = 2.5"

text \<open>
  The core calculations of \<open>preprocess_input\<close>, one column assignment per line of the
  source.
\<close>

definition core_calculations :: "string list \<Rightarrow> frame \<Rightarrow> error + frame" where
  "core_calculations degradant_cols df0 =
     (let df1 = set_column ''total_degradants'' (sum_axis1 degradant_cols df0) df0;
          df2 = set_column ''AMB''
                  (map2 (np_arith (+)) (column ''api_assay'' df1) (column ''total_degradants'' df1))
                  df1;
          df3 = set_column ''AMBD'' (map (\<lambda>v. np_arith (-) v (Float 100)) (column ''AMB'' df2)) df2
      in bind_err (apply_axis1 rmb_lambda df3) (\<lambda>rmb.
           let df4 = set_column ''RMB'' rmb df3;
               df5 = set_column ''RMBD'' (map (\<lambda>v. np_arith (-) v (Float 1)) (column ''RMB'' df4)) df4;
               df6 = set_column ''Z_MB''
                       (map (\<lambda>v. np_arith (/) (np_arith (-) v (Float 100))
                                    (Float COMBINED_UNCERTAINTY))
                          (column ''AMB'' df5))
                       df5
           in Inr df6))"

text \<open>
  \<open>preprocess_input\<close>.  The set \<open>missing\<close> is listed in the order of the required
  names.  \<open>pd.to_numeric\<close> raises \<open>TypeError\<close> on \<open>df[col]\<close> when \<open>col\<close> labels more
  than one column.
\<close>

definition preprocess_input ::
  "(string \<Rightarrow> real option) \<Rightarrow> frame \<Rightarrow> error + (frame \<times> (nat \<times> string) list)" where
  "preprocess_input parse df_raw =
     (let df = normalize_columns df_raw;
          missing = filter (\<lambda>c. c \<notin> set (columns df)) required_columns
      in if missing \<noteq> [] then Inl (MissingRequiredColumns missing)
         else
           let degradant_cols = detect_degradant_columns df
           in if degradant_cols = [] then Inl NoDegradantColumns
              else
                let numeric_cols = [''api_assay'', ''time_months''] @ degradant_cols
                in if \<exists>c \<in> set numeric_cols. 1 < count_list (columns df) c then Inl TypeError
                   else
                     bind_err
                       (core_calculations degradant_cols
                          (dropna_all (coerce_columns parse numeric_cols df)))
                       validate_and_clean)"

section \<open>app.py: the zone and action columns\<close>

definition diagnostic_zone_column :: "frame \<Rightarrow> error + string list" where
  "diagnostic_zone_column df =
     sequence_err (map (\<lambda>r. diagnostic_zone (r ''AMB'') (r ''RMB'') (r ''Z_MB'')) (rows df))"

section \<open>Reading the pipeline row by row\<close>

text \<open>
  The definitions of this section restate nothing of the specification except where
  their name starts with \<open>spec_\<close>; they name what the proofs talk about: the cells of a
  numeric column, the frame on which the core calculations run, and the row that the
  column assignments of \<open>core_calculations\<close> produce from a row of that frame.
\<close>

fun is_float64 :: "pyval \<Rightarrow> bool" where
  "is_float64 (Float x) = True"
| "is_float64 NaN = True"
| "is_float64 _ = False"

definition numeric_row :: "(string \<Rightarrow> pyval) \<Rightarrow> bool" where
  "numeric_row r \<longleftrightarrow> is_float64 (r ''api_assay'') \<and> is_float64 (r ''total_degradants'')"

text \<open>The frame after renaming, coercion and \<open>dropna\<close>.\<close>

definition prepared_frame :: "(string \<Rightarrow> real option) \<Rightarrow> frame \<Rightarrow> frame" where
  "prepared_frame parse df_raw =
     (let df = normalize_columns df_raw
      in dropna_all (coerce_columns parse
           ([''api_assay'', ''time_months''] @ detect_degradant_columns df) df))"

text \<open>What \<open>series_of_results\<close> does to one result, given whether every result is \<open>None\<close>.\<close>

definition none_to_nan :: "bool \<Rightarrow> pyval \<Rightarrow> pyval" where
  "none_to_nan object_column v = (if v = PyNone \<and> \<not> object_column then NaN else v)"

definition rmb_value :: "(string \<Rightarrow> pyval) \<Rightarrow> pyval" where
  "rmb_value r = (case rmb_lambda r of Inr v \<Rightarrow> v | Inl e \<Rightarrow> PyNone)"

definition pre_rmb_row :: "string list \<Rightarrow> (string \<Rightarrow> pyval) \<Rightarrow> string \<Rightarrow> pyval" where
  "pre_rmb_row degradant_cols r =
     (let r1 = r(''total_degradants'' :=
                   Float (sum_list (map (\<lambda>c. nansum_term (r c)) degradant_cols)));
          r2 = r1(''AMB'' := np_arith (+) (r1 ''api_assay'') (r1 ''total_degradants''));
          r3 = r2(''AMBD'' := np_arith (-) (r2 ''AMB'') (Float 100))
      in r3)"

definition metrics_row :: "bool \<Rightarrow> string list \<Rightarrow> (string \<Rightarrow> pyval) \<Rightarrow> string \<Rightarrow> pyval" where
  "metrics_row object_column degradant_cols r =
     (let r3 = pre_rmb_row degradant_cols r;
          r4 = r3(''RMB'' := none_to_nan object_column (rmb_value r3));
          r5 = r4(''RMBD'' := np_arith (-) (r4 ''RMB'') (Float 1));
          r6 = r5(''Z_MB'' := np_arith (/) (np_arith (-) (r5 ''AMB'') (Float 100))
                                (Float COMBINED_UNCERTAINTY))
      in r6)"

text \<open>Every row of the prepared frame leaves RMB undefined.\<close>

definition rmb_all_none :: "(string \<Rightarrow> real option) \<Rightarrow> frame \<Rightarrow> bool" where
  "rmb_all_none parse df \<longleftrightarrow>
     list_all (\<lambda>r. rmb_value (pre_rmb_row (detect_degradant_columns (normalize_columns df)) r) = PyNone)
       (rows (prepared_frame parse df))"

text \<open>
  An input on which the pipeline is followed to its end: the required names and a
  degradant column are there, and no two columns share a label after renaming.
\<close>

definition well_formed_input :: "frame \<Rightarrow> bool" where
  "well_formed_input df \<longleftrightarrow>
     distinct (columns (normalize_columns df)) \<and>
     set required_columns \<subseteq> set (columns (normalize_columns df)) \<and>
     detect_degradant_columns (normalize_columns df) \<noteq> []"

text \<open>
  The specification's reading of the row validator: three independent checks, each with
  its text, and an issue record for the rows that fail one at least.  An assay that is
  not a number is not in the range from 0 to 100.
\<close>

definition spec_failed_checks :: "pyval \<Rightarrow> pyval \<Rightarrow> string list" where
  "spec_failed_checks api_assay total_degradants =
     (case api_assay of
        Float a \<Rightarrow> if 0 \<le> a \<and> a \<le> 100 then [] else [''API assay out of range'']
      | _ \<Rightarrow> [''API assay out of range'']) @
     (case total_degradants of
        Float t \<Rightarrow> if t < 0 then [''Negative degradants''] else []
      | _ \<Rightarrow> []) @
     (case (api_assay, total_degradants) of
        (Float a, Float t) \<Rightarrow> if a + t < 90 then [''Suspicious mass loss''] else []
      | _ \<Rightarrow> [])"

definition spec_issues :: "(string \<Rightarrow> pyval) list \<Rightarrow> (nat \<times> string) list" where
  "spec_issues rs =
     map (\<lambda>(i, r). (i, join '', '' (spec_failed_checks (r ''api_assay'') (r ''total_degradants''))))
       (filter (\<lambda>(i, r). spec_failed_checks (r ''api_assay'') (r ''total_degradants'') \<noteq> [])
          (enumerate 0 rs))"



section \<open>Example inputs\<close>

text \<open>A parser for tables whose text cells denote no number.\<close>

definition no_numeric_text :: "string \<Rightarrow> real option" where
  "no_numeric_text s = None"

definition empty_row :: "string \<Rightarrow> pyval" where
  "empty_row c = NaN"

text \<open>Scenario 4 of the specification as a table of one row.\<close>

definition scenario4_table :: frame where
  "scenario4_table =
     \<lparr>columns = [''API Assay'', ''Stress'', ''Time'', ''Degradant A''],
      rows = [empty_row(''API Assay'' := Float 105, ''Stress'' := Str ''heat'',
                        ''Time'' := Float 1, ''Degradant A'' := Float 3)]\<rparr>"

text \<open>Scenarios 2 and 4 in one table.\<close>

definition scenario2_4_table :: frame where
  "scenario2_4_table =
     \<lparr>columns = [''API Assay'', ''Stress'', ''Time'', ''Degradant A''],
      rows = [empty_row(''API Assay'' := Float 90, ''Stress'' := Str ''heat'',
                        ''Time'' := Float 1, ''Degradant A'' := Float 2),
              empty_row(''API Assay'' := Float 105, ''Stress'' := Str ''heat'',
                        ''Time'' := Float 1, ''Degradant A'' := Float 3)]\<rparr>"


text \<open>A table whose only degradant cell is text that is no number.\<close>

definition text_degradant_table :: frame where
  "text_degradant_table =
     \<lparr>columns = [''API Assay'', ''Stress'', ''Time'', ''Degradant A''],
      rows = [empty_row(''API Assay'' := Float 95, ''Stress'' := Str ''heat'',
                        ''Time'' := Float 1, ''Degradant A'' := Str ''n/a'')]\<rparr>"



text \<open>A computed table with a clean row and a row that fails all three checks.\<close>

definition validation_table :: frame where
  "validation_table =
     \<lparr>columns = [''api_assay'', ''total_degradants''],
      rows = [empty_row(''api_assay'' := Float 99, ''total_degradants'' := Float 1),
              empty_row(''api_assay'' := Float (- 5), ''total_degradants'' := Float (- 1))]\<rparr>"

section \<open>Facts about the operators\<close>

lemmas py_defs =
  py_lt_def py_le_def py_gt_def py_ge_def py_sub_def
  py_and_def py_not_def py_if_def bind_err_def

lemmas zone_label_defs =
  zone1_label_def zone2_label_def zone3_physical_label_def zone4_label_def
  zone3_default_label_def en_dash_def

lemma diagnostic_zone_range:
  assumes "diagnostic_zone amb rmb z_mb = Inr lbl"
  shows "lbl \<in> {zone1_label, zone2_label, zone3_physical_label, zone4_label,
                 zone3_default_label}"
  using assms
  by (auto simp add: diagnostic_zone_def py_defs split: sum.splits if_splits)

lemma diagnostic_zone_missing_nan:
  assumes "2 < \<bar>z\<bar>"
  shows "diagnostic_zone (Float amb) NaN (Float z) = Inr zone3_default_label"
  using assms by (simp add: diagnostic_zone_def py_defs)

lemma diagnostic_zone_missing_none:
  assumes "2 < \<bar>z\<bar>" and "amb < 98 \<or> 102 < amb"
  shows "diagnostic_zone (Float amb) PyNone (Float z) = Inl TypeError"
  using assms by (auto simp add: diagnostic_zone_def py_defs)

lemma recommended_action_labels:
  "recommended_action zone1_label = spec_zone_action 1"
  "recommended_action zone2_label = spec_zone_action 2"
  "recommended_action zone3_physical_label = spec_zone_action 3"
  "recommended_action zone4_label = spec_zone_action 4"
  "recommended_action zone3_default_label = spec_zone_action 3"
  by (simp_all add: recommended_action_def spec_zone_action_def zone_label_defs)

lemma spec_zone_number_labels:
  "spec_zone_number zone1_label = Some 1"
  "spec_zone_number zone2_label = Some 2"
  "spec_zone_number zone3_physical_label = Some 3"
  "spec_zone_number zone4_label = Some 4"
  "spec_zone_number zone3_default_label = Some 3"
  by (simp_all add: spec_zone_number_def zone_label_defs)

section \<open>Facts about the pipeline\<close>

lemma sequence_err_map:
  assumes "\<forall>x \<in> set xs. f x = Inr (g x)"
  shows "sequence_err (map f xs) = Inr (map g xs)"
  using assms by (induction xs) (simp_all add: bind_err_def)

lemma rows_set_column_map:
  "rows (set_column c (map f (rows df)) df) = map (\<lambda>r. r(c := f r)) (rows df)"
  by (simp add: set_column_def zip_map2 zip_same_conv_map)

lemma map2_map_map: "map2 f (map g xs) (map h xs) = map (\<lambda>x. f (g x) (h x)) xs"
  by (simp add: zip_map_map zip_same_conv_map)

lemma rmb_lambda_float64:
  assumes "is_float64 (r ''api_assay'')" and "r ''total_degradants'' = Float t"
  shows "rmb_lambda r = Inr (rmb_value r)"
  using assms
  by (cases "r ''api_assay''") (simp_all add: rmb_value_def rmb_lambda_def py_defs)

lemma series_of_results_map:
  "series_of_results vs = map (none_to_nan (\<forall>v \<in> set vs. v = PyNone)) vs"
  by (auto simp add: series_of_results_def none_to_nan_def map_idI)

lemma core_calculations_rows:
  assumes num: "\<forall>r \<in> set (rows df). is_float64 (r ''api_assay'')"
  shows "\<exists>out. core_calculations degs df = Inr out \<and>
           rows out =
             map (metrics_row (list_all (\<lambda>r. rmb_value (pre_rmb_row degs r) = PyNone) (rows df)) degs)
               (rows df)"
proof -
  let ?oc = "list_all (\<lambda>r. rmb_value (pre_rmb_row degs r) = PyNone) (rows df)"
  define df1 where "df1 = set_column ''total_degradants'' (sum_axis1 degs df) df"
  define df2 where "df2 = set_column ''AMB''
      (map2 (np_arith (+)) (column ''api_assay'' df1) (column ''total_degradants'' df1)) df1"
  define df3 where "df3 = set_column ''AMBD''
      (map (\<lambda>v. np_arith (-) v (Float 100)) (column ''AMB'' df2)) df2"
  define df4 where "df4 = set_column ''RMB''
      (map (\<lambda>r. none_to_nan ?oc (rmb_value r)) (rows df3)) df3"
  define df5 where "df5 = set_column ''RMBD''
      (map (\<lambda>v. np_arith (-) v (Float 1)) (column ''RMB'' df4)) df4"
  define df6 where "df6 = set_column ''Z_MB''
      (map (\<lambda>v. np_arith (/) (np_arith (-) v (Float 100)) (Float COMBINED_UNCERTAINTY))
         (column ''AMB'' df5)) df5"
  have r1: "rows df1 = map (\<lambda>r. r(''total_degradants'' :=
      Float (sum_list (map (\<lambda>c. nansum_term (r c)) degs)))) (rows df)"
    by (simp add: df1_def sum_axis1_def rows_set_column_map)
  have r2: "rows df2 = map (\<lambda>r. r(''AMB'' :=
      np_arith (+) (r ''api_assay'') (r ''total_degradants''))) (rows df1)"
    by (simp add: df2_def column_def map2_map_map rows_set_column_map)
  have r3': "rows df3 = map (\<lambda>r. r(''AMBD'' := np_arith (-) (r ''AMB'') (Float 100))) (rows df2)"
    by (simp add: df3_def column_def rows_set_column_map o_def)
  have r3: "rows df3 = map (pre_rmb_row degs) (rows df)"
    by (simp add: r3' r2 r1 pre_rmb_row_def Let_def o_def)
  have "\<forall>r \<in> set (rows df). rmb_lambda (pre_rmb_row degs r) = Inr (rmb_value (pre_rmb_row degs r))"
  proof
    fix r assume "r \<in> set (rows df)"
    with num have "is_float64 (r ''api_assay'')" by blast
    then show "rmb_lambda (pre_rmb_row degs r) = Inr (rmb_value (pre_rmb_row degs r))"
      by (intro rmb_lambda_float64) (simp_all add: pre_rmb_row_def)
  qed
  then have seq: "sequence_err (map rmb_lambda (rows df3)) =
      Inr (map (\<lambda>r. rmb_value (pre_rmb_row degs r)) (rows df))"
    unfolding r3 map_map o_def
    by (rule sequence_err_map [where f = "\<lambda>r. rmb_lambda (pre_rmb_row degs r)"])
  have "apply_axis1 rmb_lambda df3 =
      Inr (map (\<lambda>r. none_to_nan ?oc (rmb_value (pre_rmb_row degs r))) (rows df))"
    by (simp add: apply_axis1_def seq bind_err_def series_of_results_map o_def list_all_iff)
  then have app: "apply_axis1 rmb_lambda df3 =
      Inr (map (\<lambda>r. none_to_nan ?oc (rmb_value r)) (rows df3))"
    by (simp add: r3 o_def)
  have res: "core_calculations degs df = Inr df6"
    unfolding core_calculations_def Let_def
    unfolding df1_def [symmetric] df2_def [symmetric] df3_def [symmetric] app bind_err_def
    by (simp add: df6_def df5_def df4_def)
  have r4: "rows df4 = map (\<lambda>r. r(''RMB'' := none_to_nan ?oc (rmb_value r))) (rows df3)"
    by (simp add: df4_def rows_set_column_map)
  have r5: "rows df5 = map (\<lambda>r. r(''RMBD'' := np_arith (-) (r ''RMB'') (Float 1))) (rows df4)"
    by (simp add: df5_def column_def rows_set_column_map o_def)
  have r6: "rows df6 = map (\<lambda>r. r(''Z_MB'' :=
      np_arith (/) (np_arith (-) (r ''AMB'') (Float 100)) (Float COMBINED_UNCERTAINTY))) (rows df5)"
    by (simp add: df6_def column_def rows_set_column_map o_def)
  have "rows df6 = map (metrics_row ?oc degs) (rows df)"
    by (simp add: r6 r5 r4 r3 metrics_row_def Let_def o_def)
  with res show ?thesis by blast
qed

lemma row_issues_numeric:
  assumes "numeric_row r"
  shows "row_issues r = Inr (spec_failed_checks (r ''api_assay'') (r ''total_degradants''))"
  using assms unfolding numeric_row_def
  by (cases "r ''api_assay''"; cases "r ''total_degradants''")
     (auto simp add: row_issues_def spec_failed_checks_def py_defs)

lemma validate_loop_numeric:
  assumes "\<forall>r \<in> set rs. numeric_row r"
  shows "validate_loop idx rs acc =
     Inr (acc @
       map (\<lambda>(i, r). (i, join '', '' (spec_failed_checks (r ''api_assay'') (r ''total_degradants''))))
         (filter (\<lambda>(i, r). spec_failed_checks (r ''api_assay'') (r ''total_degradants'') \<noteq> [])
            (enumerate idx rs)))"
  using assms
  by (induction rs arbitrary: idx acc) (simp_all add: row_issues_numeric bind_err_def)

lemma validate_and_clean_numeric:
  assumes "\<forall>r \<in> set (rows df). numeric_row r"
  shows "validate_and_clean df = Inr (df, spec_issues (rows df))"
  using validate_loop_numeric [OF assms, of 0 "[]"]
  by (simp add: validate_and_clean_def spec_issues_def bind_err_def)

lemma validate_and_clean_frame:
  assumes "validate_and_clean df = Inr (df', issues)"
  shows "df' = df"
  using assms by (auto simp add: validate_and_clean_def bind_err_def split: sum.splits)

lemma is_float64_to_numeric: "is_float64 (to_numeric parse v)"
  by (cases v) (simp_all split: option.splits)

lemma distinct_count_list_le: "distinct xs \<Longrightarrow> count_list xs c \<le> 1"
  by (induction xs) (auto simp add: count_list_0_iff)

lemma prepared_frame_float64:
  assumes "r \<in> set (rows (prepared_frame parse df))"
    and "c \<in> set ([''api_assay'', ''time_months''] @ detect_degradant_columns (normalize_columns df))"
  shows "is_float64 (r c)"
  using assms
  by (auto simp add: prepared_frame_def Let_def dropna_all_def coerce_columns_def
      is_float64_to_numeric)




lemma metrics_row_unchanged:
  assumes "c \<notin> {''total_degradants'', ''AMB'', ''AMBD'', ''RMB'', ''RMBD'', ''Z_MB''}"
  shows "metrics_row oc degs r c = r c"
  using assms by (simp add: metrics_row_def pre_rmb_row_def Let_def)

lemma metrics_row_total:
  "metrics_row oc degs r ''total_degradants'' =
     Float (sum_list (map (\<lambda>c. nansum_term (r c)) degs))"
  by (simp add: metrics_row_def pre_rmb_row_def Let_def)

lemma metrics_row_AMB:
  "metrics_row oc degs r ''AMB'' =
     np_arith (+) (r ''api_assay'') (Float (sum_list (map (\<lambda>c. nansum_term (r c)) degs)))"
  by (simp add: metrics_row_def pre_rmb_row_def Let_def)


lemma metrics_row_Z_MB:
  "metrics_row oc degs r ''Z_MB'' =
     np_arith (/) (np_arith (-) (metrics_row oc degs r ''AMB'') (Float 100))
       (Float COMBINED_UNCERTAINTY)"
  by (simp add: metrics_row_def pre_rmb_row_def Let_def)




text \<open>
  With the schema resolved and no numeric label duplicated, \<open>preprocess_input\<close> returns:
  its table holds the rows of the prepared frame with the metrics attached, and its
  issue list is the one the specification describes.
\<close>

lemma preprocess_input_resolved:
  assumes req: "set required_columns \<subseteq> set (columns (normalize_columns df))"
    and degs: "detect_degradant_columns (normalize_columns df) \<noteq> []"
    and nodup: "\<not> (\<exists>c \<in> set ([''api_assay'', ''time_months''] @
                   detect_degradant_columns (normalize_columns df)).
                 1 < count_list (columns (normalize_columns df)) c)"
  shows "\<exists>out. preprocess_input parse df = Inr (out, spec_issues (rows out)) \<and>
           rows out =
             map (metrics_row (rmb_all_none parse df) (detect_degradant_columns (normalize_columns df)))
               (rows (prepared_frame parse df))"
proof -
  let ?dfn = "normalize_columns df"
  let ?degs = "detect_degradant_columns ?dfn"
  let ?prep = "prepared_frame parse df"
  from req have missing: "filter (\<lambda>c. c \<notin> set (columns ?dfn)) required_columns = []"
    by (auto simp add: filter_empty_conv)
  have "\<forall>r \<in> set (rows ?prep). is_float64 (r ''api_assay'')"
    by (auto intro: prepared_frame_float64)
  from core_calculations_rows [OF this, of ?degs]
  obtain out where core: "core_calculations ?degs ?prep = Inr out"
    and rws: "rows out = map (metrics_row (rmb_all_none parse df) ?degs) (rows ?prep)"
    unfolding rmb_all_none_def by blast
  have "\<forall>r \<in> set (rows out). numeric_row r"
  proof
    fix r' assume "r' \<in> set (rows out)"
    then obtain r where r: "r \<in> set (rows ?prep)"
      and r': "r' = metrics_row (rmb_all_none parse df) ?degs r"
      unfolding rws by auto
    have "is_float64 (r ''api_assay'')"
      using r by (auto intro: prepared_frame_float64)
    then show "numeric_row r'"
      by (simp add: numeric_row_def r' metrics_row_total metrics_row_unchanged)
  qed
  then have val: "validate_and_clean out = Inr (out, spec_issues (rows out))"
    by (rule validate_and_clean_numeric)
  have "preprocess_input parse df = Inr (out, spec_issues (rows out))"
    using missing degs nodup core val
    unfolding preprocess_input_def Let_def prepared_frame_def
    by (simp add: bind_err_def)
  with rws show ?thesis by blast
qed

lemma preprocess_input_well_formed:
  assumes wf: "well_formed_input df"
  shows "\<exists>out. preprocess_input parse df = Inr (out, spec_issues (rows out)) \<and>
           rows out =
             map (metrics_row (rmb_all_none parse df) (detect_degradant_columns (normalize_columns df)))
               (rows (prepared_frame parse df))"
proof (rule preprocess_input_resolved)
  from wf show "set required_columns \<subseteq> set (columns (normalize_columns df))"
    and "detect_degradant_columns (normalize_columns df) \<noteq> []"
    by (simp_all add: well_formed_input_def)
  from wf have "distinct (columns (normalize_columns df))"
    by (simp add: well_formed_input_def)
  from distinct_count_list_le [OF this]
  show "\<not> (\<exists>c \<in> set ([''api_assay'', ''time_months''] @
                   detect_degradant_columns (normalize_columns df)).
                 1 < count_list (columns (normalize_columns df)) c)"
    by (auto simp add: not_less)
qed






lemma spec_failed_checks_float:
  "spec_failed_checks (Float a) (Float t) =
     (if a < 0 \<or> 100 < a then [''API assay out of range''] else []) @
     (if t < 0 then [''Negative degradants''] else []) @
     (if a + t < 90 then [''Suspicious mass loss''] else [])"
  by (auto simp add: spec_failed_checks_def)








lemma metrics_row_RMB_all_none:
  assumes "rmb_value (pre_rmb_row degs r) = PyNone"
  shows "metrics_row True degs r ''RMB'' = PyNone"
  using assms by (simp add: metrics_row_def Let_def none_to_nan_def)

lemma metrics_row_RMB_not_none:
  "metrics_row False degs r ''RMB'' \<noteq> PyNone"
  by (simp add: metrics_row_def Let_def none_to_nan_def)

lemma metrics_row_Z_MB_float:
  assumes "metrics_row oc degs r ''Z_MB'' = Float z"
  shows "\<exists>amb. metrics_row oc degs r ''AMB'' = Float amb \<and> z * 5 = (amb - 100) * 2"
  using assms unfolding metrics_row_Z_MB
  by (cases "metrics_row oc degs r ''AMB''") (auto simp add: COMBINED_UNCERTAINTY_def)

lemma zone_classification_raises_without_defined_rmb:
  assumes wf: "well_formed_input df" and none: "rmb_all_none parse df"
  shows "\<exists>out issues. preprocess_input parse df = Inr (out, issues) \<and>
           (\<forall>r \<in> set (rows out). r ''RMB'' = PyNone \<and>
              (\<forall>z. r ''Z_MB'' = Float z \<and> 2 < \<bar>z\<bar> \<longrightarrow>
                 diagnostic_zone (r ''AMB'') (r ''RMB'') (r ''Z_MB'') = Inl TypeError))"
proof -
  let ?degs = "detect_degradant_columns (normalize_columns df)"
  from preprocess_input_well_formed [OF wf, of parse] none
  obtain out where res: "preprocess_input parse df = Inr (out, spec_issues (rows out))"
    and rws: "rows out = map (metrics_row True ?degs) (rows (prepared_frame parse df))"
    by auto
  have "\<forall>r \<in> set (rows out). r ''RMB'' = PyNone \<and>
      (\<forall>z. r ''Z_MB'' = Float z \<and> 2 < \<bar>z\<bar> \<longrightarrow>
         diagnostic_zone (r ''AMB'') (r ''RMB'') (r ''Z_MB'') = Inl TypeError)"
  proof
    fix r' assume "r' \<in> set (rows out)"
    then obtain r where r: "r \<in> set (rows (prepared_frame parse df))"
      and r': "r' = metrics_row True ?degs r"
      unfolding rws by auto
    from none r have "rmb_value (pre_rmb_row ?degs r) = PyNone"
      by (simp add: rmb_all_none_def list_all_iff)
    then have rmb: "r' ''RMB'' = PyNone"
      unfolding r' by (rule metrics_row_RMB_all_none)
    have "diagnostic_zone (r' ''AMB'') (r' ''RMB'') (r' ''Z_MB'') = Inl TypeError"
      if z: "r' ''Z_MB'' = Float z" and big: "2 < \<bar>z\<bar>" for z
    proof -
      from z obtain amb where amb: "r' ''AMB'' = Float amb" and zv: "z * 5 = (amb - 100) * 2"
        unfolding r' by (blast dest: metrics_row_Z_MB_float)
      from big zv have "amb < 98 \<or> 102 < amb" by (cases "z < 0") auto
      with big show ?thesis
        unfolding amb rmb z by (rule diagnostic_zone_missing_none)
    qed
    with rmb show "r' ''RMB'' = PyNone \<and>
      (\<forall>z. r' ''Z_MB'' = Float z \<and> 2 < \<bar>z\<bar> \<longrightarrow>
         diagnostic_zone (r' ''AMB'') (r' ''RMB'') (r' ''Z_MB'') = Inl TypeError)"
      by blast
  qed
  with res show ?thesis by blast
qed

lemma zone_classification_default_with_defined_rmb:
  assumes wf: "well_formed_input df" and some: "\<not> rmb_all_none parse df"
  shows "\<exists>out issues. preprocess_input parse df = Inr (out, issues) \<and>
           (\<forall>r \<in> set (rows out). \<forall>z. isna (r ''RMB'') \<and> r ''Z_MB'' = Float z \<and> 2 < \<bar>z\<bar> \<longrightarrow>
              diagnostic_zone (r ''AMB'') (r ''RMB'') (r ''Z_MB'') = Inr zone3_default_label)"
proof -
  let ?degs = "detect_degradant_columns (normalize_columns df)"
  from preprocess_input_well_formed [OF wf, of parse] some
  obtain out where res: "preprocess_input parse df = Inr (out, spec_issues (rows out))"
    and rws: "rows out = map (metrics_row False ?degs) (rows (prepared_frame parse df))"
    by auto
  have "\<forall>r \<in> set (rows out). \<forall>z. isna (r ''RMB'') \<and> r ''Z_MB'' = Float z \<and> 2 < \<bar>z\<bar> \<longrightarrow>
      diagnostic_zone (r ''AMB'') (r ''RMB'') (r ''Z_MB'') = Inr zone3_default_label"
  proof (intro ballI allI impI)
    fix r' z assume "r' \<in> set (rows out)"
      and h: "isna (r' ''RMB'') \<and> r' ''Z_MB'' = Float z \<and> 2 < \<bar>z\<bar>"
    then obtain r where r': "r' = metrics_row False ?degs r"
      unfolding rws by auto
    have "r' ''RMB'' \<noteq> PyNone"
      unfolding r' by (rule metrics_row_RMB_not_none)
    with h have rmb: "r' ''RMB'' = NaN"
      by (cases "r' ''RMB''") simp_all
    from h obtain amb where amb: "r' ''AMB'' = Float amb"
      unfolding r' by (blast dest: metrics_row_Z_MB_float)
    from h have z: "r' ''Z_MB'' = Float z" and big: "2 < \<bar>z\<bar>" by simp_all
    from big show "diagnostic_zone (r' ''AMB'') (r' ''RMB'') (r' ''Z_MB'') = Inr zone3_default_label"
      unfolding amb rmb z by (rule diagnostic_zone_missing_nan)
  qed
  with res show ?thesis by blast
qed

section \<open>Facts about the example inputs\<close>






lemma text_degradant_scenario:
  "map_sum id (\<lambda>(out, issues).
       (map (\<lambda>r. (r ''api_assay'', r ''degradant_a'', r ''total_degradants'', r ''AMB'')) (rows out),
        issues))
     (preprocess_input no_numeric_text text_degradant_table) =
   Inr ([(Float 95, NaN, Float 0, Float 95)], [])"
  by code_simp

lemma scenario2_4_classified:
  "map_sum id (\<lambda>(out, issues).
       (map (\<lambda>r. (r ''AMB'', r ''RMB'', r ''Z_MB'')) (rows out), diagnostic_zone_column out))
     (preprocess_input no_numeric_text scenario2_4_table) =
   Inr ([(Float 92, Float (1 / 5), Float (- 16 / 5)), (Float 108, NaN, Float (16 / 5))],
        Inr [zone2_label, zone3_default_label])"
  by code_simp

section \<open>The zone classifier and the action lookup\<close>

text \<open>
  C2: whenever \<open>|Z_MB| \<le> 2\<close> the classifier returns the Zone 1 label, whatever AMB and
  RMB are (a float, NaN, \<open>None\<close> or anything else): the first rule of the decision list
  wins before AMB or RMB is looked at.
\<close>

theorem C2_zone1_precedence:
  assumes "\<bar>z\<bar> \<le> 2"
  shows "diagnostic_zone amb rmb (Float z) = Inr zone1_label"
  using assms by (simp add: diagnostic_zone_def py_defs)

theorem C2_zone1_precedence_witness:
  "\<bar>- 2 / 5 :: real\<bar> \<le> 2 \<and>
   diagnostic_zone (Float 92) (Float (1 / 5)) (Float (- 2 / 5)) = Inr zone1_label"
  using C2_zone1_precedence [of "- 2 / 5" "Float 92" "Float (1 / 5)"] by simp

text \<open>
  C10: for a defined Z_MB the interpretation shown in a row is a three-way split:
  "Within analytical variability" when \<open>|z| \<le> 2\<close>, "Statistically significant mass
  loss" when \<open>z < -2\<close>, "Statistically significant over-recovery" when \<open>z > 2\<close>; the
  three cases cover every \<open>z\<close>, exclude one another, and their labels differ.
\<close>

theorem C10_interpret_z_mb_three_way:
  "(\<bar>z\<bar> \<le> 2 \<longrightarrow>
      z_mb_interpretation (Float z) = Inr ''Within analytical variability'') \<and>
   (z < - 2 \<longrightarrow>
      z_mb_interpretation (Float z) = Inr ''Statistically significant mass loss'') \<and>
   (2 < z \<longrightarrow>
      z_mb_interpretation (Float z) = Inr ''Statistically significant over-recovery'') \<and>
   (\<bar>z\<bar> \<le> 2 \<or> z < - 2 \<or> 2 < z) \<and>
   \<not> (\<bar>z\<bar> \<le> 2 \<and> z < - 2) \<and> \<not> (\<bar>z\<bar> \<le> 2 \<and> 2 < z) \<and> \<not> (z < - 2 \<and> 2 < z) \<and>
   ''Within analytical variability'' \<noteq> ''Statistically significant mass loss'' \<and>
   ''Within analytical variability'' \<noteq> ''Statistically significant over-recovery'' \<and>
   ''Statistically significant mass loss'' \<noteq> ''Statistically significant over-recovery''"
  by (auto simp add: z_mb_interpretation_def interpret_z_mb_def py_defs)

theorem C10_interpret_z_mb_three_way_witness:
  "\<bar>0 :: real\<bar> \<le> 2 \<and>
   z_mb_interpretation (Float 0) = Inr ''Within analytical variability'' \<and>
   (- 16 / 5 :: real) < - 2 \<and>
   z_mb_interpretation (Float (- 16 / 5)) = Inr ''Statistically significant mass loss'' \<and>
   (2 :: real) < 16 / 5 \<and>
   z_mb_interpretation (Float (16 / 5)) = Inr ''Statistically significant over-recovery''"
  using C10_interpret_z_mb_three_way [of 0]
    C10_interpret_z_mb_three_way [of "- 16 / 5"]
    C10_interpret_z_mb_three_way [of "16 / 5"]
  by simp

text \<open>
  C6: on every label the classifier can return, the action is the fixed action of the
  zone number that the label starts with, a number from 1 to 4; the two Zone 3 labels
  get the same action, and the default "Expert review required" is never returned.
\<close>

theorem C6_action_by_zone_number:
  assumes "diagnostic_zone amb rmb z_mb = Inr lbl"
  shows "(\<exists>n. spec_zone_number lbl = Some n \<and> n \<in> {1, 2, 3, 4} \<and>
              recommended_action lbl = spec_zone_action n) \<and>
         recommended_action lbl \<noteq> ''Expert review required'' \<and>
         recommended_action zone3_physical_label = recommended_action zone3_default_label"
proof -
  from assms have "lbl \<in> {zone1_label, zone2_label, zone3_physical_label, zone4_label,
      zone3_default_label}"
    by (rule diagnostic_zone_range)
  then consider "lbl = zone1_label" | "lbl = zone2_label" | "lbl = zone3_physical_label"
    | "lbl = zone4_label" | "lbl = zone3_default_label"
    by auto
  then have "(\<exists>n. spec_zone_number lbl = Some n \<and> n \<in> {1, 2, 3, 4} \<and>
      recommended_action lbl = spec_zone_action n)"
    by cases (simp_all add: recommended_action_labels spec_zone_number_labels)
  moreover from this have "recommended_action lbl \<noteq> ''Expert review required''"
    by (auto simp add: spec_zone_action_def)
  moreover have "recommended_action zone3_physical_label = recommended_action zone3_default_label"
    by (simp add: recommended_action_labels)
  ultimately show ?thesis by blast
qed

theorem C6_action_by_zone_number_witness:
  "diagnostic_zone (Float 92) (Float (1 / 5)) (Float (- 16 / 5)) = Inr zone2_label \<and>
   (\<exists>n. spec_zone_number zone2_label = Some n \<and> n \<in> {1, 2, 3, 4} \<and>
        recommended_action zone2_label = spec_zone_action n) \<and>
   recommended_action zone2_label \<noteq> ''Expert review required''"
proof -
  have h: "diagnostic_zone (Float 92) (Float (1 / 5)) (Float (- 16 / 5)) = Inr zone2_label"
    by (simp add: diagnostic_zone_def py_defs)
  from C6_action_by_zone_number [OF h] h show ?thesis by blast
qed
section \<open>The preprocessing pipeline\<close>




text \<open>
  C3: the lambda that computes RMB returns \<open>None\<close> where \<open>100 - api_assay \<le> 0\<close>.  In
  the table of Scenario 4 alone every row does, the RMB column holds \<open>None\<close>, and the
  classifier raises \<open>TypeError\<close> on \<open>None > 1.2\<close> instead of returning the default Zone 3
  label.  (With a row of defined RMB in the table the missing cells are NaN and the
  classifier returns the default label: \<open>zone_classification_default_with_defined_rmb\<close>.)
\<close>

theorem C3_scenario4_single_row_raises:
  "map_sum id (\<lambda>(out, issues).
       (map (\<lambda>r. (r ''AMB'', r ''RMB'', r ''Z_MB'')) (rows out), diagnostic_zone_column out))
     (preprocess_input no_numeric_text scenario4_table) =
   Inr ([(Float 108, PyNone, Float (16 / 5))], Inl TypeError)"
  by code_simp










text \<open>
  C9: \<open>validate_and_clean\<close> returns the frame it was given; on a frame with numeric
  \<open>api_assay\<close> and \<open>total_degradants\<close> it returns, and its issue list has one record, the
  row index with the texts of the failed checks joined by ", ", for each row that fails
  a check and for no other row; on floats the checks are \<open>api_assay\<close> outside [0, 100],
  \<open>total_degradants < 0\<close> and \<open>api_assay + total_degradants < 90\<close>.
\<close>

theorem C9_validate_and_clean_advisory:
  "(validate_and_clean df = Inr (df', issues) \<longrightarrow> df' = df) \<and>
   ((\<forall>r \<in> set (rows df). numeric_row r) \<longrightarrow>
      validate_and_clean df = Inr (df, spec_issues (rows df))) \<and>
   (spec_failed_checks (Float a) (Float t) \<noteq> [] \<longleftrightarrow> a < 0 \<or> 100 < a \<or> t < 0 \<or> a + t < 90)"
  by (auto simp add: validate_and_clean_frame validate_and_clean_numeric spec_failed_checks_float)

theorem C9_validate_and_clean_advisory_witness:
  "validate_and_clean validation_table =
     Inr (validation_table,
          [(1, ''API assay out of range, Negative degradants, Suspicious mass loss'')])"
proof -
  have num: "\<forall>r \<in> set (rows validation_table). numeric_row r"
    by (simp add: validation_table_def numeric_row_def empty_row_def)
  have "spec_issues (rows validation_table) =
      [(1, ''API assay out of range, Negative degradants, Suspicious mass loss'')]"
    by (simp add: spec_issues_def validation_table_def spec_failed_checks_float enumerate_eq_zip)
  with C9_validate_and_clean_advisory [of validation_table validation_table "[]" 0 0] num
  show ?thesis by simp
qed

end
